theory Spec2Isabelle
  imports Main
begin

section \<open>The address input of the wallet extension\<close>

text \<open>
  This theory embeds \<^verbatim>\<open>AddressInput\<close> of \<^verbatim>\<open>src/ui/components/Input/index.tsx\<close>: the
  React component that turns keystrokes into a recipient address, either a raw address or
  the owner of a name such as \<^verbatim>\<open>alice.sats\<close>, looked up asynchronously.

  Conventions of the embedding.
  \<^item> A JavaScript string is a \<open>string\<close>; a \<open>char\<close> stands for a UTF-16 code unit below
    256. Strings with other code units are outside the model.
  \<^item> A string is truthy iff it is not \<open>[]\<close>; \<^verbatim>\<open>null\<close> and \<^verbatim>\<open>undefined\<close> are \<open>None\<close>.
  \<^item> The \<^verbatim>\<open>useState\<close> cells of the component are the fields of the record \<open>state\<close>;
    a setter call is a record update. All setters are called with plain values, so the
    value of a cell after a handler is the last value set in it.
  \<^item> What the component imports from files that are not part of the sources at hand
    (\<^verbatim>\<open>SUPPORTED_DOMAINS\<close>, \<^verbatim>\<open>SAFE_DOMAIN_CONFIRMATION\<close>, \<^verbatim>\<open>getSatsName\<close>) and the
    library predicate \<^verbatim>\<open>bitcore.Address.isValid\<close> are parameters, the fields of \<open>env\<close>.
\<close>

subsection \<open>Data\<close>

text \<open>The fields of \<^verbatim>\<open>Inscription\<close> that the component reads. \<^verbatim>\<open>address\<close> is read as
  \<^verbatim>\<open>inscription.address || ''\<close>, so it may be missing.\<close>

record Inscription =
  address :: "string option"
  utxoConfirmation :: int

text \<open>The result of \<^verbatim>\<open>getSatsName\<close>; the component reads \<^verbatim>\<open>suffix\<close> only.\<close>

record satsname =
  suffix :: string

record env =
  SUPPORTED_DOMAINS :: "string list"
  SAFE_DOMAIN_CONFIRMATION :: int
  getSatsName :: "string \<Rightarrow> satsname option"
  isValid :: "string \<Rightarrow> bool"

record state =
  validAddress :: string
  parseAddress :: string
  parseError :: string
  formatError :: string
  inputVal :: string
  inscription :: "Inscription option"
  parseName :: string
  searching :: bool

text \<open>The argument of \<^verbatim>\<open>onAddressInputChange\<close>: \<^verbatim>\<open>{ address, domain, inscription }\<close>.\<close>

record target =
  cb_address :: string
  cb_domain :: string
  cb_inscription :: "Inscription option"

text \<open>Calls to the two collaborators the claims are about.\<close>

datatype call = IsValidCall string | QueryDomainInfo string

text \<open>What the callbacks of a lookup capture: \<^verbatim>\<open>inputAddress\<close>, \<^verbatim>\<open>satsname\<close> and, through
  \<^verbatim>\<open>resetState\<close>, the cell values of the render in which the handler was created.\<close>

record request =
  req_inputAddress :: string
  req_satsname :: satsname
  req_render :: state

text \<open>How the promise returned by \<^verbatim>\<open>queryDomainInfo\<close> settles: with a record or
  \<^verbatim>\<open>null\<close>, or with an \<^verbatim>\<open>Error\<close> whose \<^verbatim>\<open>message\<close> is kept.\<close>

datatype 'a settled = Fulfilled 'a | Rejected string

subsection \<open>String helpers of the platform\<close>

text \<open>Decimal rendering of an integer in a template literal.\<close>

fun natToString :: "nat \<Rightarrow> string" where
  "natToString n =
     (if n < 10 then [''0123456789'' ! n]
      else natToString (n div 10) @ [''0123456789'' ! (n mod 10)])"

definition numberToString :: "int \<Rightarrow> string" where
  "numberToString i = (if i < 0 then CHR ''-'' # natToString (nat (- i)) else natToString (nat i))"

text \<open>\<^verbatim>\<open>String.prototype.toLowerCase\<close> on code units below 256: the letters A to Z and
  the Latin-1 capitals \<open>0xC0\<close> to \<open>0xDE\<close> (without the multiplication sign \<open>0xD7\<close>) move up
  by 32.\<close>

definition lowerChar :: "char \<Rightarrow> char" where
  "lowerChar c =
     (let n = (of_char c :: nat)
      in if (65 \<le> n \<and> n \<le> 90) \<or> (192 \<le> n \<and> n \<le> 222 \<and> n \<noteq> 215) then char_of (n + 32) else c)"

definition toLowerCase :: "string \<Rightarrow> string" where
  "toLowerCase s = map lowerChar s"

text \<open>\<^verbatim>\<open>encodeURIComponent\<close>: letters, digits and \<^verbatim>\<open>- _ . ! ~ * ' ( )\<close> are kept, every other
  code unit is written as the percent-escaped bytes of its UTF-8 encoding.\<close>

definition hexDigit :: "nat \<Rightarrow> char" where
  "hexDigit n = ''0123456789ABCDEF'' ! n"

definition percentByte :: "nat \<Rightarrow> string" where
  "percentByte b = [CHR ''%'', hexDigit (b div 16), hexDigit (b mod 16)]"

definition uriUnreserved :: "char \<Rightarrow> bool" where
  "uriUnreserved c =
     (let n = (of_char c :: nat)
      in (65 \<le> n \<and> n \<le> 90) \<or> (97 \<le> n \<and> n \<le> 122) \<or> (48 \<le> n \<and> n \<le> 57)
         \<or> c \<in> set ''-_.!~*'' \<or> n = 39 \<or> n = 40 \<or> n = 41)"

definition encodeChar :: "char \<Rightarrow> string" where
  "encodeChar c =
     (let n = (of_char c :: nat)
      in if uriUnreserved c then [c]
         else if n < 128 then percentByte n
         else percentByte (192 + n div 64) @ percentByte (128 + n mod 64))"

definition encodeURIComponent :: "string \<Rightarrow> string" where
  "encodeURIComponent s = concat (map encodeChar s)"

subsection \<open>The list of supported names in the error message\<close>

text \<open>The \<^verbatim>\<open>for\<close> loop of \<^verbatim>\<open>handleInputAddress\<close> over \<^verbatim>\<open>names\<close>, with its counter \<open>i\<close> and
  its accumulator \<open>str\<close>.\<close>

function namesLoop :: "string list \<Rightarrow> nat \<Rightarrow> string \<Rightarrow> string" where
  "namesLoop names i str =
     (if i < length names
      then namesLoop names (i + 1)
             ((if i = 0 then str
               else if i < length names - 1 then str @ '', ''
               else str @ '' and '') @ names ! i)
      else str)"
  by pat_completeness auto
termination
  by (relation "measure (\<lambda>(names, i, str). length names - i)") auto

declare namesLoop.simps [simp del]

definition supportedText :: "string list \<Rightarrow> string" where
  "supportedText domains = namesLoop (map (\<lambda>v. ''.'' @ v) domains) 0 []"

text \<open>The same list in the words of the specification: the names joined with commas and
  a final "and".\<close>

fun commaAndList :: "string list \<Rightarrow> string" where
  "commaAndList [] = []"
| "commaAndList [a] = a"
| "commaAndList [a, b] = a @ '' and '' @ b"
| "commaAndList (a # b # c # rest) = a @ '', '' @ commaAndList (b # c # rest)"

text \<open>What follows the first name in such a list.\<close>

fun andTail :: "string list \<Rightarrow> string" where
  "andTail [] = []"
| "andTail [b] = '' and '' @ b"
| "andTail (b # c # rest) = '', '' @ b @ andTail (c # rest)"

subsection \<open>The handlers of the component\<close>

text \<open>\<^verbatim>\<open>resetState\<close> tests the cell values of its own render, \<open>c\<close>, and clears the cells
  of the component, \<open>s\<close>. \<^verbatim>\<open>setParseName('')\<close> is unconditional; \<^verbatim>\<open>searching\<close> and
  \<^verbatim>\<open>inputVal\<close> are not touched.\<close>

definition resetState :: "state \<Rightarrow> state \<Rightarrow> state" where
  "resetState c s =
     (let s1 = (if parseError c \<noteq> [] then s\<lparr>parseError := []\<rparr> else s);
          s2 = (if parseAddress c \<noteq> [] then s1\<lparr>parseAddress := []\<rparr> else s1);
          s3 = (if formatError c \<noteq> [] then s2\<lparr>formatError := []\<rparr> else s2);
          s4 = (if validAddress c \<noteq> [] then s3\<lparr>validAddress := []\<rparr> else s3);
          s5 = (if inscription c \<noteq> None then s4\<lparr>inscription := None\<rparr> else s4)
      in s5\<lparr>parseName := []\<rparr>)"

text \<open>\<^verbatim>\<open>handleInputAddress\<close> up to the point where it returns. The handler bound to the
  input element is the one of the latest render, so the values its \<^verbatim>\<open>resetState\<close> tests are
  those of the current state \<open>s\<close>. The result is the new state, the collaborator calls made
  and the lookup started, if any.\<close>

definition handleInputAddress :: "env \<Rightarrow> state \<Rightarrow> string \<Rightarrow> state \<times> call list \<times> request option" where
  "handleInputAddress env s inputAddress =
     (let s1 = s\<lparr>inputVal := inputAddress\<rparr>;
          s2 = resetState s s1;
          teststr = toLowerCase inputAddress
      in case getSatsName env teststr of
           Some satsname \<Rightarrow>
             if suffix satsname \<in> set (SUPPORTED_DOMAINS env)
             then (s2\<lparr>searching := True\<rparr>,
                   [QueryDomainInfo (encodeURIComponent inputAddress)],
                   Some \<lparr>req_inputAddress = inputAddress, req_satsname = satsname, req_render = s\<rparr>)
             else (s2\<lparr>formatError :=
                        ''Currently only '' @ supportedText (SUPPORTED_DOMAINS env) @ '' are supported.''\<rparr>,
                   [], None)
         | None \<Rightarrow>
             if \<not> isValid env inputAddress
             then (s2\<lparr>formatError := ''Recipient address is invalid''\<rparr>, [IsValidCall inputAddress], None)
             else (s2\<lparr>validAddress := inputAddress\<rparr>, [IsValidCall inputAddress], None))"

text \<open>The text shown for a record with too few confirmations. The denominator is the
  literal 3 of the source.\<close>

definition waitMessage :: "int \<Rightarrow> string" where
  "waitMessage confirmations =
     ''This domain has been transferred or inscribed recently. Please wait for block confirmations (''
       @ numberToString confirmations @ ''/3).''"

text \<open>The \<^verbatim>\<open>then\<close> callback of the lookup \<open>r\<close>, run on the state \<open>s\<close> the component has when
  the promise settles.\<close>

definition thenHandler :: "env \<Rightarrow> request \<Rightarrow> Inscription option \<Rightarrow> state \<Rightarrow> state" where
  "thenHandler env r result s =
     (let s1 = resetState (req_render r) s
      in case result of
           None \<Rightarrow> s1\<lparr>parseError := req_inputAddress r @ '' does not exist''\<rparr>
         | Some ins \<Rightarrow>
             (let s2 = s1\<lparr>inscription := Some ins\<rparr>
              in if utxoConfirmation ins < SAFE_DOMAIN_CONFIRMATION env
                 then s2\<lparr>parseError := waitMessage (utxoConfirmation ins)\<rparr>
                 else (let addr = (case address ins of None \<Rightarrow> [] | Some a \<Rightarrow> a)
                       in s2\<lparr>parseAddress := addr, validAddress := addr,
                             parseName := suffix (req_satsname r)\<rparr>)))"

definition catchHandler :: "request \<Rightarrow> string \<Rightarrow> state \<Rightarrow> state" where
  "catchHandler r message s = s\<lparr>formatError := message @ '' for '' @ req_inputAddress r\<rparr>"

definition finallyHandler :: "state \<Rightarrow> state" where
  "finallyHandler s = s\<lparr>searching := False\<rparr>"

text \<open>The chain \<^verbatim>\<open>.then(...).catch(...).finally(...)\<close> on a settled promise: the state
  after its callbacks and how the promise the chain returns settles. The callbacks run
  as consecutive microtasks; the callbacks of another lookup that run in between commute
  with \<^verbatim>\<open>finally\<close>, which writes \<^verbatim>\<open>searching\<close> only, so the chain is one step.\<close>

definition onSettled :: "env \<Rightarrow> request \<Rightarrow> Inscription option settled \<Rightarrow> state \<Rightarrow> unit settled \<times> state" where
  "onSettled env r p s =
     (let (p1, s1) = (case p of
                        Fulfilled result \<Rightarrow> (Fulfilled (), thenHandler env r result s)
                      | Rejected message \<Rightarrow> (Rejected message, s));
          (p2, s2) = (case p1 of
                        Fulfilled u \<Rightarrow> (Fulfilled u, s1)
                      | Rejected message \<Rightarrow> (Fulfilled (), catchHandler r message s1))
      in (p2, finallyHandler s2))"

text \<open>\<^verbatim>\<open>useEffect(..., [validAddress])\<close>: after a render in which \<^verbatim>\<open>validAddress\<close> differs
  from the previous render, \<^verbatim>\<open>onAddressInputChange\<close> is called with the values of the new
  render.\<close>

definition effectArgs :: "state \<Rightarrow> target" where
  "effectArgs s =
     \<lparr>cb_address = validAddress s,
      cb_domain = (if parseAddress s \<noteq> [] then inputVal s else []),
      cb_inscription = inscription s\<rparr>"

definition effect :: "state \<Rightarrow> state \<Rightarrow> target list" where
  "effect prev new = (if validAddress new \<noteq> validAddress prev then [effectArgs new] else [])"

subsection \<open>The component over time\<close>

text \<open>The component with its surroundings: the cells, the lookups in flight (oldest
  first), and the logs of the collaborator calls and of the calls to
  \<^verbatim>\<open>onAddressInputChange\<close>. An event is a keystroke or the settling of the lookup at a
  position of \<open>pending\<close>. The setter calls of one event are rendered together, before the
  next event.\<close>

record system =
  ui :: state
  pending :: "request list"
  calls :: "call list"
  emitted :: "target list"

datatype event = Keystroke string | Completion nat "Inscription option settled"

fun step :: "env \<Rightarrow> system \<Rightarrow> event \<Rightarrow> system" where
  "step env sys (Keystroke inputAddress) =
     (let (s', cs, started) = handleInputAddress env (ui sys) inputAddress
      in \<lparr>ui = s',
          pending = pending sys @ (case started of None \<Rightarrow> [] | Some r \<Rightarrow> [r]),
          calls = calls sys @ cs,
          emitted = emitted sys @ effect (ui sys) s'\<rparr>)"
| "step env sys (Completion k p) =
     (if k < length (pending sys)
      then (let (p', s') = onSettled env (pending sys ! k) p (ui sys)
            in \<lparr>ui = s',
                pending = take k (pending sys) @ drop (Suc k) (pending sys),
                calls = calls sys,
                emitted = emitted sys @ effect (ui sys) s'\<rparr>)
      else sys)"

definition run :: "env \<Rightarrow> system \<Rightarrow> event list \<Rightarrow> system" where
  "run env sys evs = foldl (step env) sys evs"

text \<open>The first render: the cells as \<^verbatim>\<open>useState\<close> initialises them from
  \<^verbatim>\<open>addressInputData\<close>, and the call of the effect after mounting.\<close>

definition initialState :: "string \<Rightarrow> string \<Rightarrow> state" where
  "initialState addr domain =
     \<lparr>validAddress = addr,
      parseAddress = (if domain \<noteq> [] then addr else []),
      parseError = [],
      formatError = [],
      inputVal = (if domain \<noteq> [] then domain else addr),
      inscription = None,
      parseName = [],
      searching = False\<rparr>"

definition mount :: "string \<Rightarrow> string \<Rightarrow> system" where
  "mount addr domain =
     \<lparr>ui = initialState addr domain, pending = [], calls = [],
      emitted = [effectArgs (initialState addr domain)]\<rparr>"

subsection \<open>Collaborators for the examples\<close>

text \<open>Modelled from the spec: \<^verbatim>\<open>getSatsName\<close> of \<^verbatim>\<open>@/shared/lib/satsname-utils\<close> is not among
  the sources. The specification gives it as a pure function from a lower-cased string
  to a label and a suffix when the string has the shape \<^verbatim>\<open>label.suffix\<close>, and to no match
  otherwise, in particular for the empty string and for strings without a separator.
  Here a name has exactly one dot, with a non-empty label before it and a non-empty
  suffix after it.\<close>

definition splitSatsName :: "string \<Rightarrow> satsname option" where
  "splitSatsName str =
     (let label = takeWhile (\<lambda>c. c \<noteq> CHR ''.'') str;
          rest = dropWhile (\<lambda>c. c \<noteq> CHR ''.'') str
      in if label \<noteq> [] \<and> rest \<noteq> [] \<and> tl rest \<noteq> [] \<and> CHR ''.'' \<notin> set (tl rest)
         then Some \<lparr>suffix = tl rest\<rparr> else None)"

text \<open>An environment to run the component in: three supported suffixes, the threshold
  of three confirmations, and an address check that accepts two addresses.\<close>

definition exampleEnv :: env where
  "exampleEnv =
     \<lparr>SUPPORTED_DOMAINS = [''sats'', ''unicash'', ''btc''],
      SAFE_DOMAIN_CONFIRMATION = 3,
      getSatsName = splitSatsName,
      isValid = (\<lambda>a. a = ''bc1qalice'' \<or> a = ''bc1qbob'')\<rparr>"

section \<open>Auxiliary facts\<close>

subsection \<open>The loop that lists the supported names\<close>

lemma commaAndList_Cons: "commaAndList (a # xs) = a @ andTail xs"
  by (induction xs arbitrary: a rule: andTail.induct) simp_all

lemma andTail_Cons:
  "andTail (x # rest) = (if rest \<noteq> [] then '', '' else '' and '') @ x @ andTail rest"
  by (cases rest) simp_all

lemma andTail_drop:
  assumes "i < length names"
  shows "andTail (drop i names) =
           (if i < length names - 1 then '', '' else '' and '') @ names ! i @ andTail (drop (Suc i) names)"
proof -
  have d: "drop i names = names ! i # drop (Suc i) names"
    using assms by (simp add: Cons_nth_drop_Suc)
  have "drop (Suc i) names \<noteq> [] \<longleftrightarrow> i < length names - 1"
    by auto
  then show ?thesis
    unfolding d andTail_Cons by simp
qed

lemma namesLoop_tail:
  "0 < i \<Longrightarrow> namesLoop names i str = str @ andTail (drop i names)"
proof (induction names i str rule: namesLoop.induct)
  case (1 names i str)
  show ?case
  proof (cases "i < length names")
    case True
    have "namesLoop names i str = namesLoop names (i + 1)
             ((if i < length names - 1 then str @ '', '' else str @ '' and '') @ names ! i)"
      using True "1.prems" by (subst namesLoop.simps) simp
    also have "\<dots> = ((if i < length names - 1 then str @ '', '' else str @ '' and '') @ names ! i) @ andTail (drop (i + 1) names)"
      using "1.IH"[OF True] "1.prems" by simp
    also have "\<dots> = str @ andTail (drop i names)"
      using andTail_drop[OF True] by simp
    finally show ?thesis .
  next
    case False
    then show ?thesis by (subst namesLoop.simps) simp
  qed
qed

lemma namesLoop_commaAndList: "namesLoop names 0 [] = commaAndList names"
proof (cases names)
  case Nil
  then show ?thesis by (subst namesLoop.simps) simp
next
  case (Cons a xs)
  have "namesLoop names 0 [] = namesLoop names 1 a"
    using Cons by (subst namesLoop.simps) simp
  also have "\<dots> = a @ andTail (drop 1 names)"
    by (simp add: namesLoop_tail)
  also have "\<dots> = commaAndList names"
    using Cons by (simp add: commaAndList_Cons)
  finally show ?thesis .
qed

lemma supportedText_commaAndList:
  "supportedText domains = commaAndList (map (\<lambda>v. ''.'' @ v) domains)"
  by (simp add: supportedText_def namesLoop_commaAndList)

subsection \<open>The cells after \<^verbatim>\<open>resetState\<close>\<close>

lemma resetState_parseError: "parseError (resetState c s) = (if parseError c \<noteq> [] then [] else parseError s)"
  by (simp add: resetState_def Let_def)
lemma resetState_parseAddress: "parseAddress (resetState c s) = (if parseAddress c \<noteq> [] then [] else parseAddress s)"
  by (simp add: resetState_def Let_def)
lemma resetState_formatError: "formatError (resetState c s) = (if formatError c \<noteq> [] then [] else formatError s)"
  by (simp add: resetState_def Let_def)
lemma resetState_validAddress: "validAddress (resetState c s) = (if validAddress c \<noteq> [] then [] else validAddress s)"
  by (simp add: resetState_def Let_def)
lemma resetState_inscription: "inscription (resetState c s) = (if inscription c \<noteq> None then None else inscription s)"
  by (simp add: resetState_def Let_def)
lemma resetState_parseName: "parseName (resetState c s) = []"
  by (simp add: resetState_def Let_def)
lemma resetState_searching: "searching (resetState c s) = searching s"
  by (simp add: resetState_def Let_def)
lemma resetState_inputVal: "inputVal (resetState c s) = inputVal s"
  by (simp add: resetState_def Let_def)

lemmas resetState_fields = resetState_parseError resetState_parseAddress resetState_formatError
  resetState_validAddress resetState_inscription resetState_parseName resetState_searching
  resetState_inputVal

lemma toLowerCase_Nil: "toLowerCase [] = []"
  by (simp add: toLowerCase_def)

lemma resetState_keystroke:
  "resetState s (s\<lparr>inputVal := inputAddress\<rparr>) =
     \<lparr>validAddress = [], parseAddress = [], parseError = [], formatError = [],
      inputVal = inputAddress, inscription = None, parseName = [], searching = searching s\<rparr>"
  by (cases s) (simp add: resetState_def Let_def)

subsection \<open>The branches of the handlers\<close>

lemma handleInputAddress_supported:
  assumes "getSatsName env (toLowerCase inputAddress) = Some sn"
    and "suffix sn \<in> set (SUPPORTED_DOMAINS env)"
  shows "handleInputAddress env s inputAddress =
          ((resetState s (s\<lparr>inputVal := inputAddress\<rparr>))\<lparr>searching := True\<rparr>,
           [QueryDomainInfo (encodeURIComponent inputAddress)],
           Some \<lparr>req_inputAddress = inputAddress, req_satsname = sn, req_render = s\<rparr>)"
  using assms by (simp add: handleInputAddress_def Let_def)

lemma handleInputAddress_unsupported:
  assumes "getSatsName env (toLowerCase inputAddress) = Some sn"
    and "suffix sn \<notin> set (SUPPORTED_DOMAINS env)"
  shows "handleInputAddress env s inputAddress =
          ((resetState s (s\<lparr>inputVal := inputAddress\<rparr>))
             \<lparr>formatError := ''Currently only '' @ supportedText (SUPPORTED_DOMAINS env) @ '' are supported.''\<rparr>,
           [], None)"
  using assms by (simp add: handleInputAddress_def Let_def)

lemma onSettled_Fulfilled:
  "onSettled env r (Fulfilled result) s = (Fulfilled (), finallyHandler (thenHandler env r result s))"
  by (simp add: onSettled_def)

lemma onSettled_Rejected:
  "onSettled env r (Rejected message) s = (Fulfilled (), finallyHandler (catchHandler r message s))"
  by (simp add: onSettled_def)

lemma handleInputAddress_started:
  assumes "handleInputAddress env s inputAddress = (s1, cs, Some r)"
  shows "req_inputAddress r = inputAddress \<and> req_render r = s
       \<and> s1 = \<lparr>validAddress = [], parseAddress = [], parseError = [], formatError = [],
               inputVal = inputAddress, inscription = None, parseName = [], searching = True\<rparr>"
  using assms
  by (auto simp add: handleInputAddress_def Let_def resetState_keystroke
      split: option.splits if_splits)

lemma onSettled_fst: "fst (onSettled env r p s) = Fulfilled ()"
  by (cases p) (simp_all add: onSettled_Fulfilled onSettled_Rejected)

lemma onSettled_searching: "\<not> searching (snd (onSettled env r p s))"
  by (cases p) (simp_all add: onSettled_Fulfilled onSettled_Rejected finallyHandler_def)


lemma thenHandler_trusted:
  assumes "SAFE_DOMAIN_CONFIRMATION env \<le> utxoConfirmation ins"
  shows "thenHandler env r (Some ins) s =
           (resetState (req_render r) s)\<lparr>inscription := Some ins,
              parseAddress := (case address ins of None \<Rightarrow> [] | Some a \<Rightarrow> a),
              validAddress := (case address ins of None \<Rightarrow> [] | Some a \<Rightarrow> a),
              parseName := suffix (req_satsname r)\<rparr>"
  using assms by (simp add: thenHandler_def Let_def)

lemma thenHandler_null:
  "thenHandler env r None s =
     (resetState (req_render r) s)\<lparr>parseError := req_inputAddress r @ '' does not exist''\<rparr>"
  by (simp add: thenHandler_def Let_def)

subsection \<open>Steps and runs\<close>

lemma step_Keystroke_supported:
  assumes "getSatsName env (toLowerCase inputAddress) = Some sn"
    and "suffix sn \<in> set (SUPPORTED_DOMAINS env)"
  shows "step env sys (Keystroke inputAddress) =
          \<lparr>ui = \<lparr>validAddress = [], parseAddress = [], parseError = [], formatError = [],
                 inputVal = inputAddress, inscription = None, parseName = [], searching = True\<rparr>,
           pending = pending sys
             @ [\<lparr>req_inputAddress = inputAddress, req_satsname = sn, req_render = ui sys\<rparr>],
           calls = calls sys @ [QueryDomainInfo (encodeURIComponent inputAddress)],
           emitted = emitted sys @ (if validAddress (ui sys) \<noteq> []
              then [\<lparr>cb_address = [], cb_domain = [], cb_inscription = None\<rparr>] else [])\<rparr>"
  by (auto simp add: handleInputAddress_supported [OF assms] resetState_keystroke effect_def effectArgs_def)

lemma step_Completion:
  assumes "k < length (pending sys)"
  shows "step env sys (Completion k p) =
          \<lparr>ui = snd (onSettled env (pending sys ! k) p (ui sys)),
           pending = take k (pending sys) @ drop (Suc k) (pending sys),
           calls = calls sys,
           emitted = emitted sys @ effect (ui sys) (snd (onSettled env (pending sys ! k) p (ui sys)))\<rparr>"
  using assms by (simp add: split_def Let_def)

lemma run_Nil: "run env sys [] = sys"
  by (simp add: run_def)

lemma run_Cons: "run env sys (ev # evs) = run env (step env sys ev) evs"
  by (simp add: run_def)

subsection \<open>The example environment\<close>

lemma exampleEnv_alice: "getSatsName exampleEnv (toLowerCase ''alice.sats'') = Some \<lparr>suffix = ''sats''\<rparr>"
  by (simp add: exampleEnv_def splitSatsName_def toLowerCase_def lowerChar_def)

lemma exampleEnv_bob: "getSatsName exampleEnv (toLowerCase ''bob.sats'') = Some \<lparr>suffix = ''sats''\<rparr>"
  by (simp add: exampleEnv_def splitSatsName_def toLowerCase_def lowerChar_def)

lemma exampleEnv_unknown: "getSatsName exampleEnv (toLowerCase ''alice.unknown'') = Some \<lparr>suffix = ''unknown''\<rparr>"
  by (simp add: exampleEnv_def splitSatsName_def toLowerCase_def lowerChar_def)

lemma exampleEnv_supported: "SUPPORTED_DOMAINS exampleEnv = [''sats'', ''unicash'', ''btc'']"
  by (simp add: exampleEnv_def)

lemma exampleEnv_safe: "SAFE_DOMAIN_CONFIRMATION exampleEnv = 3"
  by (simp add: exampleEnv_def)


lemma example_alice:
  "step exampleEnv (mount [] []) (Keystroke ''alice.sats'') =
     \<lparr>ui = \<lparr>validAddress = [], parseAddress = [], parseError = [], formatError = [],
            inputVal = ''alice.sats'', inscription = None, parseName = [], searching = True\<rparr>,
      pending = [\<lparr>req_inputAddress = ''alice.sats'', req_satsname = \<lparr>suffix = ''sats''\<rparr>,
                  req_render = initialState [] []\<rparr>],
      calls = [QueryDomainInfo ''alice.sats''],
      emitted = [\<lparr>cb_address = [], cb_domain = [], cb_inscription = None\<rparr>]\<rparr>"
proof -
  have enc: "encodeURIComponent ''alice.sats'' = ''alice.sats''"
    by (simp add: encodeURIComponent_def encodeChar_def uriUnreserved_def)
  have sup: "suffix \<lparr>suffix = ''sats''\<rparr> \<in> set (SUPPORTED_DOMAINS exampleEnv)"
    by (simp add: exampleEnv_supported)
  show ?thesis
    by (subst step_Keystroke_supported [OF exampleEnv_alice sup])
       (simp add: mount_def initialState_def effectArgs_def enc)
qed

lemma example_bob:
  "step exampleEnv (step exampleEnv (mount [] []) (Keystroke ''alice.sats'')) (Keystroke ''bob.sats'') =
     \<lparr>ui = \<lparr>validAddress = [], parseAddress = [], parseError = [], formatError = [],
            inputVal = ''bob.sats'', inscription = None, parseName = [], searching = True\<rparr>,
      pending = [\<lparr>req_inputAddress = ''alice.sats'', req_satsname = \<lparr>suffix = ''sats''\<rparr>,
                  req_render = initialState [] []\<rparr>,
                 \<lparr>req_inputAddress = ''bob.sats'', req_satsname = \<lparr>suffix = ''sats''\<rparr>,
                  req_render = \<lparr>validAddress = [], parseAddress = [], parseError = [], formatError = [],
                     inputVal = ''alice.sats'', inscription = None, parseName = [], searching = True\<rparr>\<rparr>],
      calls = [QueryDomainInfo ''alice.sats'', QueryDomainInfo ''bob.sats''],
      emitted = [\<lparr>cb_address = [], cb_domain = [], cb_inscription = None\<rparr>]\<rparr>"
proof -
  have enc: "encodeURIComponent ''bob.sats'' = ''bob.sats''"
    by (simp add: encodeURIComponent_def encodeChar_def uriUnreserved_def)
  have sup: "suffix \<lparr>suffix = ''sats''\<rparr> \<in> set (SUPPORTED_DOMAINS exampleEnv)"
    by (simp add: exampleEnv_supported)
  show ?thesis
    by (subst step_Keystroke_supported [OF exampleEnv_bob sup])
       (simp add: example_alice enc del: step.simps)
qed

section \<open>The claims\<close>

subsection \<open>C1: completions of superseded lookups\<close>

text \<open>
  C1 (as amended). The component keeps no request generation and compares nothing when
  a lookup completes. The completion of any lookup in flight, whichever keystroke
  started it, is applied to the cells when it arrives: "not found" writes the text of
  that lookup's input into \<^verbatim>\<open>parseError\<close>, a failure writes its message and that input into
  \<^verbatim>\<open>formatError\<close>, a record is stored and, with enough confirmations, its address becomes
  the resolved address and that lookup's suffix the recognised name; \<^verbatim>\<open>searching\<close> is
  cleared in every case. The last completion to arrive wins.
\<close>

theorem completion_applies_for_any_lookup:
  assumes "k < length (pending sys)"
  shows "parseError (ui (step env sys (Completion k (Fulfilled None))))
           = req_inputAddress (pending sys ! k) @ '' does not exist''
       \<and> formatError (ui (step env sys (Completion k (Rejected message))))
           = message @ '' for '' @ req_inputAddress (pending sys ! k)
       \<and> inscription (ui (step env sys (Completion k (Fulfilled (Some ins))))) = Some ins
       \<and> (if utxoConfirmation ins < SAFE_DOMAIN_CONFIRMATION env
          then parseError (ui (step env sys (Completion k (Fulfilled (Some ins)))))
                 = waitMessage (utxoConfirmation ins)
          else validAddress (ui (step env sys (Completion k (Fulfilled (Some ins)))))
                 = (case address ins of None \<Rightarrow> [] | Some a \<Rightarrow> a)
             \<and> parseAddress (ui (step env sys (Completion k (Fulfilled (Some ins)))))
                 = (case address ins of None \<Rightarrow> [] | Some a \<Rightarrow> a)
             \<and> parseName (ui (step env sys (Completion k (Fulfilled (Some ins)))))
                 = suffix (req_satsname (pending sys ! k)))
       \<and> \<not> searching (ui (step env sys (Completion k p)))"
  by (simp add: step_Completion [OF assms] onSettled_searching onSettled_Fulfilled onSettled_Rejected
      thenHandler_def catchHandler_def finallyHandler_def Let_def del: step.simps)

theorem completion_applies_for_any_lookup_witness:
  "0 < length (pending (run exampleEnv (mount [] []) [Keystroke ''alice.sats'', Keystroke ''bob.sats'']))
   \<and> req_inputAddress (pending (run exampleEnv (mount [] [])
         [Keystroke ''alice.sats'', Keystroke ''bob.sats'']) ! 0) = ''alice.sats''
   \<and> inputVal (ui (run exampleEnv (mount [] [])
         [Keystroke ''alice.sats'', Keystroke ''bob.sats''])) = ''bob.sats''
   \<and> parseError (ui (step exampleEnv
         (run exampleEnv (mount [] []) [Keystroke ''alice.sats'', Keystroke ''bob.sats''])
         (Completion 0 (Fulfilled None)))) = ''alice.sats does not exist''
   \<and> formatError (ui (step exampleEnv
         (run exampleEnv (mount [] []) [Keystroke ''alice.sats'', Keystroke ''bob.sats''])
         (Completion 0 (Rejected ''Network Error'')))) = ''Network Error for alice.sats''"
proof -
  have r: "run exampleEnv (mount [] []) [Keystroke ''alice.sats'', Keystroke ''bob.sats'']
             = step exampleEnv (step exampleEnv (mount [] []) (Keystroke ''alice.sats''))
                 (Keystroke ''bob.sats'')"
    by (simp add: run_Cons run_Nil del: step.simps)
  have h: "0 < length (pending (run exampleEnv (mount [] [])
              [Keystroke ''alice.sats'', Keystroke ''bob.sats'']))"
    by (simp add: r example_bob del: step.simps)
  show ?thesis
    using completion_applies_for_any_lookup [OF h, of exampleEnv "''Network Error''"] h
    by (simp add: r example_bob del: step.simps)
qed

text \<open>C1 as stated fails. The input \<^verbatim>\<open>alice.sats\<close> is replaced by \<^verbatim>\<open>bob.sats\<close> before its
  lookup completes; the completion of the first lookup, at position 0 of the lookups in
  flight, is then applied: the address, the record and the error text of \<^verbatim>\<open>alice.sats\<close>
  appear in the cells while the input reads \<^verbatim>\<open>bob.sats\<close>, and the callback receives the
  address of one name under the text of the other.\<close>

theorem stale_completion_counterexample:
  "inputVal (ui (run exampleEnv (mount [] [])
       [Keystroke ''alice.sats'', Keystroke ''bob.sats''])) = ''bob.sats''
   \<and> req_inputAddress (pending (run exampleEnv (mount [] [])
       [Keystroke ''alice.sats'', Keystroke ''bob.sats'']) ! 0) = ''alice.sats''
   \<and> validAddress (ui (run exampleEnv (mount [] [])
       [Keystroke ''alice.sats'', Keystroke ''bob.sats''])) = []
   \<and> validAddress (ui (run exampleEnv (mount [] [])
       [Keystroke ''alice.sats'', Keystroke ''bob.sats'',
        Completion 0 (Fulfilled (Some \<lparr>address = Some ''bc1qalice'', utxoConfirmation = 5\<rparr>))]))
       = ''bc1qalice''
   \<and> inscription (ui (run exampleEnv (mount [] [])
       [Keystroke ''alice.sats'', Keystroke ''bob.sats'',
        Completion 0 (Fulfilled (Some \<lparr>address = Some ''bc1qalice'', utxoConfirmation = 5\<rparr>))]))
       = Some \<lparr>address = Some ''bc1qalice'', utxoConfirmation = 5\<rparr>
   \<and> last (emitted (run exampleEnv (mount [] [])
       [Keystroke ''alice.sats'', Keystroke ''bob.sats'',
        Completion 0 (Fulfilled (Some \<lparr>address = Some ''bc1qalice'', utxoConfirmation = 5\<rparr>))]))
       = \<lparr>cb_address = ''bc1qalice'', cb_domain = ''bob.sats'',
          cb_inscription = Some \<lparr>address = Some ''bc1qalice'', utxoConfirmation = 5\<rparr>\<rparr>
   \<and> parseError (ui (run exampleEnv (mount [] [])
       [Keystroke ''alice.sats'', Keystroke ''bob.sats'',
        Completion 0 (Fulfilled None)])) = ''alice.sats does not exist''"
  by (simp add: run_Cons run_Nil example_bob step_Completion
        onSettled_Fulfilled thenHandler_def Let_def finallyHandler_def resetState_fields
        exampleEnv_safe initialState_def effect_def effectArgs_def del: step.simps)

subsection \<open>C2: the empty input\<close>

text \<open>
  C2 (as amended). The empty string gets no treatment of its own. The keystroke clears
  \<^verbatim>\<open>parseError\<close>, the resolved address, the record and the recognised name; the text is
  then parsed and validated like any other, so when the parser reports no match and the
  address check rejects the empty string, \<^verbatim>\<open>formatError\<close> is "Recipient address is
  invalid".
\<close>

theorem empty_input_is_validated:
  assumes "getSatsName env [] = None" and "\<not> isValid env []"
  shows "formatError (fst (handleInputAddress env s [])) = ''Recipient address is invalid''
       \<and> parseError (fst (handleInputAddress env s [])) = []
       \<and> validAddress (fst (handleInputAddress env s [])) = []
       \<and> parseAddress (fst (handleInputAddress env s [])) = []
       \<and> inscription (fst (handleInputAddress env s [])) = None
       \<and> parseName (fst (handleInputAddress env s [])) = []"
  using assms by (simp add: handleInputAddress_def Let_def toLowerCase_Nil resetState_fields)

theorem empty_input_is_validated_witness:
  "getSatsName exampleEnv [] = None \<and> \<not> isValid exampleEnv []
   \<and> formatError (fst (handleInputAddress exampleEnv (initialState ''bc1qalice'' []) []))
       = ''Recipient address is invalid''
   \<and> parseError (fst (handleInputAddress exampleEnv (initialState ''bc1qalice'' []) [])) = []"
  using empty_input_is_validated [of exampleEnv "initialState ''bc1qalice'' []"]
  by (simp add: exampleEnv_def splitSatsName_def)

text \<open>C2 as stated fails: after the empty keystroke on a freshly mounted, empty input an
  error is shown.\<close>

theorem empty_input_counterexample:
  "\<not> (formatError (ui (step exampleEnv (mount [] []) (Keystroke []))) = []
      \<and> parseError (ui (step exampleEnv (mount [] []) (Keystroke []))) = [])"
  by (simp add: handleInputAddress_def Let_def toLowerCase_Nil resetState_fields mount_def
      exampleEnv_def splitSatsName_def)

subsection \<open>C3: the confirmation threshold in the message\<close>

text \<open>
  C3, at an input where the code departs from it. The comparison uses
  \<^verbatim>\<open>SAFE_DOMAIN_CONFIRMATION\<close>, the message the literal 3: with a threshold of 6, a record
  with 5 confirmations is held back, as the claim says, and its message reports the
  progress as 5/3, where the claim says 5/6.
\<close>

theorem wait_message_names_three:
  "parseError (ui (run (exampleEnv\<lparr>SAFE_DOMAIN_CONFIRMATION := 6\<rparr>) (mount [] [])
        [Keystroke ''alice.sats'',
         Completion 0 (Fulfilled (Some \<lparr>address = Some ''bc1qabc'', utxoConfirmation = 5\<rparr>))]))
     = ''This domain has been transferred or inscribed recently. Please wait for block confirmations (5/3).''
   \<and> validAddress (ui (run (exampleEnv\<lparr>SAFE_DOMAIN_CONFIRMATION := 6\<rparr>) (mount [] [])
        [Keystroke ''alice.sats'',
         Completion 0 (Fulfilled (Some \<lparr>address = Some ''bc1qabc'', utxoConfirmation = 5\<rparr>))])) = []"
proof -
  let ?env = "exampleEnv\<lparr>SAFE_DOMAIN_CONFIRMATION := 6\<rparr>"
  have p: "getSatsName ?env (toLowerCase ''alice.sats'') = Some \<lparr>suffix = ''sats''\<rparr>"
    using exampleEnv_alice by simp
  have sup: "suffix \<lparr>suffix = ''sats''\<rparr> \<in> set (SUPPORTED_DOMAINS ?env)"
    by (simp add: exampleEnv_supported)
  have w: "waitMessage 5 =
    ''This domain has been transferred or inscribed recently. Please wait for block confirmations (5/3).''"
    by (simp add: waitMessage_def numberToString_def)
  have k: "0 < length (pending (step ?env (mount [] []) (Keystroke ''alice.sats'')))"
    by (simp add: step_Keystroke_supported [OF p sup] del: step.simps)
  show ?thesis
    by (simp add: run_Cons run_Nil step_Completion [OF k] del: step.simps)
       (simp add: step_Keystroke_supported [OF p sup] onSettled_Fulfilled thenHandler_def Let_def
          finallyHandler_def resetState_fields w mount_def initialState_def del: step.simps)
qed

subsection \<open>C4: records with too few confirmations\<close>




subsection \<open>C5: the target of a trusted record\<close>

text \<open>
  C5 (as amended). When a keystroke whose text parses as a supported name is followed by
  the completion of its lookup with a record that has enough confirmations and a
  non-empty address, \<^verbatim>\<open>onAddressInputChange\<close> is called with that address, with the whole
  input text as typed as the domain, and with the record. The matched suffix goes to
  \<^verbatim>\<open>parseName\<close>, which only the view reads.
\<close>

theorem trusted_target_carries_input_text:
  assumes "getSatsName env (toLowerCase inputAddress) = Some sn"
    and "suffix sn \<in> set (SUPPORTED_DOMAINS env)"
    and "SAFE_DOMAIN_CONFIRMATION env \<le> utxoConfirmation ins"
    and "address ins = Some a" and "a \<noteq> []"
  shows "last (emitted (run env sys
            [Keystroke inputAddress, Completion (length (pending sys)) (Fulfilled (Some ins))]))
           = \<lparr>cb_address = a, cb_domain = inputAddress, cb_inscription = Some ins\<rparr>
       \<and> parseName (ui (run env sys
            [Keystroke inputAddress, Completion (length (pending sys)) (Fulfilled (Some ins))]))
           = suffix sn"
proof -
  let ?sys1 = "step env sys (Keystroke inputAddress)"
  let ?r = "\<lparr>req_inputAddress = inputAddress, req_satsname = sn, req_render = ui sys\<rparr>"
  let ?s1 = "\<lparr>validAddress = [], parseAddress = [], parseError = [], formatError = [],
                 inputVal = inputAddress, inscription = None, parseName = [], searching = True\<rparr>"
  let ?s2 = "snd (onSettled env ?r (Fulfilled (Some ins)) ?s1)"
  have ui1: "ui ?sys1 = ?s1" and pend1: "pending ?sys1 = pending sys @ [?r]"
    by (simp_all add: step_Keystroke_supported [OF assms(1,2)] del: step.simps)
  have k: "length (pending sys) < length (pending ?sys1)"
    by (simp add: pend1 del: step.simps)
  have nth: "pending ?sys1 ! length (pending sys) = ?r"
    by (simp add: pend1 del: step.simps)
  let ?t = "\<lparr>validAddress = a, parseAddress = a, parseError = [], formatError = [],
              inputVal = inputAddress, inscription = Some ins, parseName = suffix sn,
              searching = False\<rparr>"
  have s2: "?s2 = ?t"
    using assms(4)
    by (simp add: onSettled_Fulfilled thenHandler_trusted [OF assms(3)] finallyHandler_def
        resetState_def Let_def)
  have eff: "effect ?s1 ?t = [\<lparr>cb_address = a, cb_domain = inputAddress, cb_inscription = Some ins\<rparr>]"
    using assms(5) by (simp add: effect_def effectArgs_def)
  have "run env sys [Keystroke inputAddress, Completion (length (pending sys)) (Fulfilled (Some ins))]
          = step env ?sys1 (Completion (length (pending sys)) (Fulfilled (Some ins)))"
    by (simp add: run_Cons run_Nil del: step.simps)
  also have "\<dots> = \<lparr>ui = ?t,
           pending = take (length (pending sys)) (pending ?sys1) @ drop (Suc (length (pending sys))) (pending ?sys1),
           calls = calls ?sys1,
           emitted = emitted ?sys1 @ [\<lparr>cb_address = a, cb_domain = inputAddress, cb_inscription = Some ins\<rparr>]\<rparr>"
    by (simp add: step_Completion [OF k] nth ui1 s2 eff del: step.simps)
  finally show ?thesis
    by (simp del: step.simps)
qed

theorem trusted_target_carries_input_text_witness:
  "getSatsName exampleEnv (toLowerCase ''alice.sats'') = Some \<lparr>suffix = ''sats''\<rparr>
   \<and> suffix \<lparr>suffix = ''sats''\<rparr> \<in> set (SUPPORTED_DOMAINS exampleEnv)
   \<and> SAFE_DOMAIN_CONFIRMATION exampleEnv \<le> utxoConfirmation \<lparr>address = Some ''bc1qabc'', utxoConfirmation = 5\<rparr>
   \<and> address \<lparr>address = Some ''bc1qabc'', utxoConfirmation = 5\<rparr> = Some ''bc1qabc''
   \<and> ''bc1qabc'' \<noteq> []
   \<and> last (emitted (run exampleEnv (mount [] [])
        [Keystroke ''alice.sats'',
         Completion 0 (Fulfilled (Some \<lparr>address = Some ''bc1qabc'', utxoConfirmation = 5\<rparr>))]))
       = \<lparr>cb_address = ''bc1qabc'', cb_domain = ''alice.sats'',
          cb_inscription = Some \<lparr>address = Some ''bc1qabc'', utxoConfirmation = 5\<rparr>\<rparr>"
proof -
  have h2: "suffix \<lparr>suffix = ''sats''\<rparr> \<in> set (SUPPORTED_DOMAINS exampleEnv)"
    by (simp add: exampleEnv_supported)
  have h3: "SAFE_DOMAIN_CONFIRMATION exampleEnv
              \<le> utxoConfirmation \<lparr>address = Some ''bc1qabc'', utxoConfirmation = 5\<rparr>"
    by (simp add: exampleEnv_safe)
  have h4: "address \<lparr>address = Some ''bc1qabc'', utxoConfirmation = 5\<rparr> = Some ''bc1qabc''"
    by simp
  have h5: "''bc1qabc'' \<noteq> []"
    by simp
  have p: "length (pending (mount [] [])) = 0"
    by (simp add: mount_def)
  show ?thesis
    using trusted_target_carries_input_text [OF exampleEnv_alice h2 h3 h4 h5, of "mount [] []"]
      exampleEnv_alice h2 h3
    by (simp add: p del: step.simps)
qed

text \<open>C5 as stated fails: for \<^verbatim>\<open>alice.sats\<close> the domain handed to the callback is
  \<^verbatim>\<open>alice.sats\<close>, not the suffix \<^verbatim>\<open>sats\<close>.\<close>

theorem trusted_target_domain_counterexample:
  "cb_domain (last (emitted (run exampleEnv (mount [] [])
        [Keystroke ''alice.sats'',
         Completion 0 (Fulfilled (Some \<lparr>address = Some ''bc1qabc'', utxoConfirmation = 5\<rparr>))])))
     \<noteq> ''sats''
   \<and> cb_domain (last (emitted (run exampleEnv (mount [] [])
        [Keystroke ''alice.sats'',
         Completion 0 (Fulfilled (Some \<lparr>address = Some ''bc1qabc'', utxoConfirmation = 5\<rparr>))])))
     = ''alice.sats''"
  by (simp add: run_Cons run_Nil example_alice step_Completion
        onSettled_Fulfilled thenHandler_def Let_def finallyHandler_def resetState_fields
        exampleEnv_safe initialState_def effect_def effectArgs_def del: step.simps)

subsection \<open>C6 and C7: names before addresses\<close>

text \<open>
  C6. When the lower-cased input parses as a name whose suffix is supported, the
  keystroke calls the resolver with the encoded input and nothing else: the address check
  is not called.
\<close>

theorem domain_input_skips_validator:
  assumes "getSatsName env (toLowerCase inputAddress) = Some sn"
    and "suffix sn \<in> set (SUPPORTED_DOMAINS env)"
  shows "fst (snd (handleInputAddress env s inputAddress)) = [QueryDomainInfo (encodeURIComponent inputAddress)]
       \<and> (\<forall>a. IsValidCall a \<notin> set (fst (snd (handleInputAddress env s inputAddress))))
       \<and> calls (step env sys (Keystroke inputAddress))
           = calls sys @ [QueryDomainInfo (encodeURIComponent inputAddress)]"
  by (simp add: handleInputAddress_supported [OF assms])

theorem domain_input_skips_validator_witness:
  "getSatsName exampleEnv (toLowerCase ''alice.sats'') = Some \<lparr>suffix = ''sats''\<rparr>
   \<and> suffix \<lparr>suffix = ''sats''\<rparr> \<in> set (SUPPORTED_DOMAINS exampleEnv)
   \<and> calls (step exampleEnv (mount [] []) (Keystroke ''alice.sats'')) = [QueryDomainInfo ''alice.sats'']"
proof -
  have h1: "getSatsName exampleEnv (toLowerCase ''alice.sats'') = Some \<lparr>suffix = ''sats''\<rparr>"
    by (rule exampleEnv_alice)
  have h2: "suffix \<lparr>suffix = ''sats''\<rparr> \<in> set (SUPPORTED_DOMAINS exampleEnv)"
    by (simp add: exampleEnv_supported)
  have enc: "encodeURIComponent ''alice.sats'' = ''alice.sats''"
    by (simp add: encodeURIComponent_def encodeChar_def uriUnreserved_def)
  show ?thesis
    using domain_input_skips_validator [OF h1 h2, of "ui (mount [] [])" "mount [] []"] h1 h2
    by (simp add: mount_def enc)
qed

text \<open>
  C7. When the input parses as a name whose suffix is not supported, the keystroke sets
  \<^verbatim>\<open>formatError\<close> to a sentence that lists every supported suffix, each with a leading
  dot, joined with commas and a final "and", and it calls neither the resolver nor the
  address check.
\<close>

theorem unsupported_suffix_format_error:
  assumes "getSatsName env (toLowerCase inputAddress) = Some sn"
    and "suffix sn \<notin> set (SUPPORTED_DOMAINS env)"
  shows "formatError (fst (handleInputAddress env s inputAddress))
           = ''Currently only '' @ commaAndList (map (\<lambda>v. ''.'' @ v) (SUPPORTED_DOMAINS env))
               @ '' are supported.''
       \<and> fst (snd (handleInputAddress env s inputAddress)) = []
       \<and> snd (snd (handleInputAddress env s inputAddress)) = None
       \<and> calls (step env sys (Keystroke inputAddress)) = calls sys
       \<and> pending (step env sys (Keystroke inputAddress)) = pending sys"
  by (simp add: handleInputAddress_unsupported [OF assms] supportedText_commaAndList)

theorem unsupported_suffix_format_error_witness:
  "getSatsName exampleEnv (toLowerCase ''alice.unknown'') = Some \<lparr>suffix = ''unknown''\<rparr>
   \<and> suffix \<lparr>suffix = ''unknown''\<rparr> \<notin> set (SUPPORTED_DOMAINS exampleEnv)
   \<and> formatError (fst (handleInputAddress exampleEnv (initialState [] []) ''alice.unknown''))
       = ''Currently only .sats, .unicash and .btc are supported.''
   \<and> calls (step exampleEnv (mount [] []) (Keystroke ''alice.unknown'')) = []"
proof -
  have h1: "getSatsName exampleEnv (toLowerCase ''alice.unknown'') = Some \<lparr>suffix = ''unknown''\<rparr>"
    by (rule exampleEnv_unknown)
  have h2: "suffix \<lparr>suffix = ''unknown''\<rparr> \<notin> set (SUPPORTED_DOMAINS exampleEnv)"
    by (simp add: exampleEnv_supported)
  show ?thesis
    using unsupported_suffix_format_error [OF h1 h2, of "initialState [] []" "mount [] []"] h1 h2
    by (simp add: mount_def exampleEnv_supported)
qed

subsection \<open>C8: errors of a lookup\<close>

text \<open>
  C8. When the lookup started by a keystroke completes next: "not found" sets
  \<^verbatim>\<open>parseError\<close> to the input text followed by " does not exist"; a failure sets
  \<^verbatim>\<open>formatError\<close> to its message, " for " and the input text. In both cases no address is
  resolved, and however the lookup settles, the promise returned by the chain is
  fulfilled, so nothing is thrown, and \<^verbatim>\<open>searching\<close> is cleared.
\<close>

theorem lookup_errors_are_absorbed:
  assumes "handleInputAddress env s inputAddress = (s1, cs, Some r)"
  shows "parseError (snd (onSettled env r (Fulfilled None) s1)) = inputAddress @ '' does not exist''
       \<and> formatError (snd (onSettled env r (Fulfilled None) s1)) = []
       \<and> validAddress (snd (onSettled env r (Fulfilled None) s1)) = []
       \<and> formatError (snd (onSettled env r (Rejected message) s1)) = message @ '' for '' @ inputAddress
       \<and> parseError (snd (onSettled env r (Rejected message) s1)) = []
       \<and> validAddress (snd (onSettled env r (Rejected message) s1)) = []
       \<and> fst (onSettled env r p s1) = Fulfilled ()
       \<and> \<not> searching (snd (onSettled env r p s1))"
proof -
  note st = handleInputAddress_started [OF assms]
  have s1: "validAddress s1 = []" "parseError s1 = []" "formatError s1 = []"
    using st by simp_all
  show ?thesis
    using st s1
    by (simp add: onSettled_fst onSettled_searching onSettled_Fulfilled onSettled_Rejected
        thenHandler_null catchHandler_def finallyHandler_def resetState_fields)
qed

theorem lookup_errors_are_absorbed_witness:
  "handleInputAddress exampleEnv (initialState [] []) ''alice.sats'' =
     (\<lparr>validAddress = [], parseAddress = [], parseError = [], formatError = [],
       inputVal = ''alice.sats'', inscription = None, parseName = [], searching = True\<rparr>,
      [QueryDomainInfo ''alice.sats''],
      Some \<lparr>req_inputAddress = ''alice.sats'', req_satsname = \<lparr>suffix = ''sats''\<rparr>,
            req_render = initialState [] []\<rparr>)
   \<and> parseError (ui (run exampleEnv (mount [] [])
        [Keystroke ''alice.sats'', Completion 0 (Fulfilled None)])) = ''alice.sats does not exist''
   \<and> formatError (ui (run exampleEnv (mount [] [])
        [Keystroke ''alice.sats'', Completion 0 (Rejected ''Network Error'')]))
       = ''Network Error for alice.sats''"
proof -
  have enc: "encodeURIComponent ''alice.sats'' = ''alice.sats''"
    by (simp add: encodeURIComponent_def encodeChar_def uriUnreserved_def)
  have sup: "suffix \<lparr>suffix = ''sats''\<rparr> \<in> set (SUPPORTED_DOMAINS exampleEnv)"
    by (simp add: exampleEnv_supported)
  have h: "handleInputAddress exampleEnv (initialState [] []) ''alice.sats'' =
     (\<lparr>validAddress = [], parseAddress = [], parseError = [], formatError = [],
       inputVal = ''alice.sats'', inscription = None, parseName = [], searching = True\<rparr>,
      [QueryDomainInfo ''alice.sats''],
      Some \<lparr>req_inputAddress = ''alice.sats'', req_satsname = \<lparr>suffix = ''sats''\<rparr>,
            req_render = initialState [] []\<rparr>)"
    by (simp add: handleInputAddress_supported [OF exampleEnv_alice sup] resetState_keystroke enc)
  show ?thesis
    using lookup_errors_are_absorbed [OF h, of "''Network Error''"] h
    by (simp add: run_Cons run_Nil example_alice step_Completion del: step.simps)
qed

subsection \<open>C9: what a keystroke clears\<close>

text \<open>
  C9 (as amended). Every keystroke, before it starts any lookup, clears \<^verbatim>\<open>parseError\<close>,
  \<^verbatim>\<open>parseAddress\<close>, the record and the recognised name, and \<^verbatim>\<open>formatError\<close> and
  \<^verbatim>\<open>validAddress\<close> hold nothing but the outcome of this keystroke. The flag \<^verbatim>\<open>searching\<close> is
  not cleared: a keystroke that starts a lookup sets it, any other keystroke leaves it as
  it was.
\<close>

theorem keystroke_clears_cells:
  "parseError (fst (handleInputAddress env s inputAddress)) = []
   \<and> parseAddress (fst (handleInputAddress env s inputAddress)) = []
   \<and> inscription (fst (handleInputAddress env s inputAddress)) = None
   \<and> parseName (fst (handleInputAddress env s inputAddress)) = []
   \<and> inputVal (fst (handleInputAddress env s inputAddress)) = inputAddress
   \<and> (case snd (snd (handleInputAddress env s inputAddress)) of
         Some r \<Rightarrow>
           validAddress (fst (handleInputAddress env s inputAddress)) = []
           \<and> formatError (fst (handleInputAddress env s inputAddress)) = []
           \<and> searching (fst (handleInputAddress env s inputAddress))
       | None \<Rightarrow>
           searching (fst (handleInputAddress env s inputAddress)) = searching s
           \<and> (validAddress (fst (handleInputAddress env s inputAddress)) = []
                \<or> formatError (fst (handleInputAddress env s inputAddress)) = []
                   \<and> validAddress (fst (handleInputAddress env s inputAddress)) = inputAddress))"
  by (simp add: handleInputAddress_def Let_def resetState_fields split: option.splits)

text \<open>C9 as stated fails for \<^verbatim>\<open>searching\<close>: the second keystroke starts no lookup, and the
  flag set by the first is still up after it.\<close>

theorem keystroke_keeps_searching_counterexample:
  "searching (ui (run exampleEnv (mount [] []) [Keystroke ''alice.sats'', Keystroke ''xyz'']))
   \<and> snd (snd (handleInputAddress exampleEnv
        (ui (run exampleEnv (mount [] []) [Keystroke ''alice.sats''])) ''xyz'')) = None"
  by (simp add: run_def handleInputAddress_def Let_def resetState_fields mount_def
      exampleEnv_def splitSatsName_def toLowerCase_def lowerChar_def initialState_def)

subsection \<open>C10: the address of a trusted record\<close>

text \<open>
  C10. When a record with enough confirmations arrives, the address stored as the
  resolved target, and passed to \<^verbatim>\<open>onAddressInputChange\<close>, is the record's address, or the
  empty string when the record has none.
\<close>

theorem trusted_address_is_a_string:
  assumes "SAFE_DOMAIN_CONFIRMATION env \<le> utxoConfirmation ins"
  shows "validAddress (snd (onSettled env r (Fulfilled (Some ins)) s))
           = (case address ins of None \<Rightarrow> [] | Some a \<Rightarrow> a)
       \<and> parseAddress (snd (onSettled env r (Fulfilled (Some ins)) s))
           = (case address ins of None \<Rightarrow> [] | Some a \<Rightarrow> a)
       \<and> cb_address (effectArgs (snd (onSettled env r (Fulfilled (Some ins)) s)))
           = (case address ins of None \<Rightarrow> [] | Some a \<Rightarrow> a)"
  using assms
  by (simp add: onSettled_Fulfilled thenHandler_def finallyHandler_def Let_def effectArgs_def)

theorem trusted_address_is_a_string_witness:
  "SAFE_DOMAIN_CONFIRMATION exampleEnv \<le> utxoConfirmation \<lparr>address = None, utxoConfirmation = 5\<rparr>
   \<and> validAddress (snd (onSettled exampleEnv
         \<lparr>req_inputAddress = ''alice.sats'', req_satsname = \<lparr>suffix = ''sats''\<rparr>,
          req_render = initialState [] []\<rparr>
         (Fulfilled (Some \<lparr>address = None, utxoConfirmation = 5\<rparr>))
         (fst (handleInputAddress exampleEnv (initialState [] []) ''alice.sats'')))) = []"
proof -
  have h: "SAFE_DOMAIN_CONFIRMATION exampleEnv \<le> utxoConfirmation \<lparr>address = None, utxoConfirmation = 5\<rparr>"
    by (simp add: exampleEnv_safe)
  show ?thesis
    using trusted_address_is_a_string [OF h] h by simp
qed

end
